theory Spec2Isabelle
  imports Complex_Main "HOL-Library.Sublist"
begin

section \<open>Python values\<close>

text \<open>
  Both Lambda functions work on deserialized JSON: the event, the SQS record, the message
  body, the service responses. A float is a finite real or one of the three non-finite
  values that \<^verbatim>\<open>json.loads\<close> accepts. A dict is an association list, read with
  \<open>map_of\<close>. Strings are byte lists.
\<close>

datatype pyfloat = Finite real | PosInf | NegInf | NaN

datatype json =
    JNull
  | JBool bool
  | JInt int
  | JFloat pyfloat
  | JStr string
  | JList "json list"
  | JDict "(string \<times> json) list"

text \<open>The exception classes the two handlers can meet.\<close>

datatype pyexn =
    KeyError
  | TypeError
  | AttributeError
  | ValueError
  | JSONDecodeError
  | InvalidOperation
  | OtherError string

text \<open>Truth value of an object, as \<^verbatim>\<open>if x\<close>, \<^verbatim>\<open>not x\<close>, \<^verbatim>\<open>x or y\<close> and \<^verbatim>\<open>all\<close> test it.\<close>

fun truthy :: "json \<Rightarrow> bool" where
  "truthy JNull = False"
| "truthy (JBool b) = b"
| "truthy (JInt n) = (n \<noteq> 0)"
| "truthy (JFloat x) = (x \<noteq> Finite 0)"
| "truthy (JStr s) = (s \<noteq> [])"
| "truthy (JList xs) = (xs \<noteq> [])"
| "truthy (JDict kvs) = (kvs \<noteq> [])"

text \<open>\<^verbatim>\<open>obj[key]\<close> with a string key: only a dict can answer; a missing key raises.\<close>

fun subscript :: "json \<Rightarrow> string \<Rightarrow> pyexn + json" where
  "subscript (JDict kvs) k = (case map_of kvs k of None \<Rightarrow> Inl KeyError | Some v \<Rightarrow> Inr v)"
| "subscript _ k = Inl TypeError"

text \<open>\<^verbatim>\<open>obj.get(key, default)\<close>: only a dict has the method.\<close>

fun dict_get :: "json \<Rightarrow> string \<Rightarrow> json \<Rightarrow> pyexn + json" where
  "dict_get (JDict kvs) k d = Inr (case map_of kvs k of None \<Rightarrow> d | Some v \<Rightarrow> v)"
| "dict_get _ k d = Inl AttributeError"

text \<open>The elements a \<^verbatim>\<open>for\<close> loop draws from an object.\<close>

fun py_iter :: "json \<Rightarrow> pyexn + json list" where
  "py_iter (JList xs) = Inr xs"
| "py_iter (JDict kvs) = Inr (map (\<lambda>kv. JStr (fst kv)) kvs)"
| "py_iter (JStr s) = Inr (map (\<lambda>c. JStr [c]) s)"
| "py_iter _ = Inl TypeError"

text \<open>\<^verbatim>\<open>int(x)\<close> of a float truncates towards zero.\<close>

definition int_of_float :: "real \<Rightarrow> int" where
  "int_of_float x = (if 0 \<le> x then \<lfloor>x\<rfloor> else \<lceil>x\<rceil>)"

subsection \<open>\<^verbatim>\<open>int(s)\<close> of a string\<close>

text \<open>
  Surrounding whitespace is stripped, one sign is allowed, and the digits may be separated
  by single underscores. Only ASCII is covered.
\<close>

definition is_space :: "char \<Rightarrow> bool" where
  "is_space c = (let n = (of_char c :: nat) in n = 32 \<or> (9 \<le> n \<and> n \<le> 13) \<or> (28 \<le> n \<and> n \<le> 31))"

definition digit_of :: "char \<Rightarrow> nat option" where
  "digit_of c = (let n = (of_char c :: nat) in if 48 \<le> n \<and> n \<le> 57 then Some (n - 48) else None)"

definition strip :: "string \<Rightarrow> string" where
  "strip s = rev (dropWhile is_space (rev (dropWhile is_space s)))"

fun int_digits :: "nat \<Rightarrow> string \<Rightarrow> nat option" where
  "int_digits acc [] = Some acc"
| "int_digits acc [c] = (case digit_of c of None \<Rightarrow> None | Some v \<Rightarrow> Some (10 * acc + v))"
| "int_digits acc (c # d # ds) =
     (if c = CHR ''_''
      then (case digit_of d of None \<Rightarrow> None | Some v \<Rightarrow> int_digits (10 * acc + v) ds)
      else (case digit_of c of None \<Rightarrow> None | Some v \<Rightarrow> int_digits (10 * acc + v) (d # ds)))"

definition int_magnitude :: "string \<Rightarrow> nat option" where
  "int_magnitude s =
     (case s of [] \<Rightarrow> None
      | d # ds \<Rightarrow> (case digit_of d of None \<Rightarrow> None | Some v \<Rightarrow> int_digits v ds))"

definition py_int :: "string \<Rightarrow> pyexn + int" where
  "py_int s =
     (case strip s of [] \<Rightarrow> Inl ValueError
      | c # cs \<Rightarrow>
          if c = CHR ''-'' then (case int_magnitude cs of None \<Rightarrow> Inl ValueError | Some n \<Rightarrow> Inr (- int n))
          else if c = CHR ''+'' then (case int_magnitude cs of None \<Rightarrow> Inl ValueError | Some n \<Rightarrow> Inr (int n))
          else (case int_magnitude (c # cs) of None \<Rightarrow> Inl ValueError | Some n \<Rightarrow> Inr (int n)))"

section \<open>The batch consumer: \<^verbatim>\<open>lambda_function.py\<close>\<close>

subsection \<open>Configuration\<close>

text \<open>
  The two module-level constants, read from the process environment when the module is
  loaded: \<^verbatim>\<open>os.environ['TABLE_NAME']\<close> and
  \<^verbatim>\<open>int(os.environ.get('TTL_DAYS', '365'))\<close>.
\<close>

record config =
  TABLE_NAME :: string
  TTL_DAYS :: int

definition load_config :: "(string \<rightharpoonup> string) \<Rightarrow> pyexn + config" where
  "load_config environ =
     (case environ ''TABLE_NAME'' of None \<Rightarrow> Inl KeyError
      | Some table_name \<Rightarrow>
          (case py_int (case environ ''TTL_DAYS'' of None \<Rightarrow> ''365'' | Some s \<Rightarrow> s) of
             Inl e \<Rightarrow> Inl e
           | Inr ttl_days \<Rightarrow> Inr \<lparr>TABLE_NAME = table_name, TTL_DAYS = ttl_days\<rparr>))"

subsection \<open>The stored item and the world\<close>

text \<open>
  \<^verbatim>\<open>Decimal(s)\<close>, kept as the literal it was built from. The fields of the item carry
  the names of its keys; where a local variable of the handler has the name of a key
  (\<^verbatim>\<open>rating\<close>, \<^verbatim>\<open>text\<close>, \<^verbatim>\<open>sentiment\<close>), the variable is written with a prime.
\<close>

datatype decimal = Decimal string

record item =
  pk :: string
  customerId :: json
  surveyId :: json
  rating :: decimal
  "text" :: json
  sentiment :: json
  score :: string
  createdAt :: int
  expiresAt :: int
  originalTimestamp :: json

text \<open>
  What lies outside the handler. Library functions are deterministic: \<open>json_loads\<close>,
  \<open>json_dumps\<close>, \<open>repr\<close> (Python's \<^verbatim>\<open>str\<close> of a value that is not a string) and
  \<open>decimal_literal\<close> (whether \<^verbatim>\<open>Decimal\<close> accepts a string). The services are not:
  their answers are fixed in advance per position of the envelope in the batch, the
  handler calling each of them at most once per envelope. \<open>detect_sentiment\<close> takes
  \<^verbatim>\<open>Text\<close> and \<^verbatim>\<open>LanguageCode\<close> and returns the response or raises;
  \<open>time_time\<close> is the clock; \<open>put_item\<close> returns the exception it raises, if any.
\<close>

record services =
  json_loads :: "string \<Rightarrow> pyexn + json"
  json_dumps :: "json \<Rightarrow> string"
  repr :: "json \<Rightarrow> string"
  decimal_literal :: "string \<Rightarrow> bool"
  detect_sentiment :: "nat \<Rightarrow> json \<Rightarrow> string \<Rightarrow> pyexn + json"
  time_time :: "nat \<Rightarrow> real"
  put_item :: "nat \<Rightarrow> string \<Rightarrow> item \<Rightarrow> pyexn option"

text \<open>
  Modelled from the spec: the Result Store, whose table definition is not part of the
  Python sources. It is keyed by the item's \<open>pk\<close>; a successful put overwrites the item
  under that key, a failed put leaves the table as it was. The world also keeps the
  arguments of every classifier call and of every store write, in order.
\<close>

record world =
  table :: "string \<rightharpoonup> item"
  comprehend_calls :: "json list"
  put_calls :: "item list"

subsection \<open>The handler\<close>

text \<open>\<^verbatim>\<open>json.loads(x)\<close>: anything but a string is a \<^verbatim>\<open>TypeError\<close>.\<close>

definition py_json_loads :: "services \<Rightarrow> json \<Rightarrow> pyexn + json" where
  "py_json_loads svc x = (case x of JStr s \<Rightarrow> json_loads svc s | _ \<Rightarrow> Inl TypeError)"

text \<open>\<^verbatim>\<open>str(x)\<close>, also what an f-string inserts.\<close>

definition py_str :: "services \<Rightarrow> json \<Rightarrow> string" where
  "py_str svc x = (case x of JStr s \<Rightarrow> s | _ \<Rightarrow> repr svc x)"

text \<open>\<^verbatim>\<open>Decimal(str(x))\<close>.\<close>

definition to_decimal :: "services \<Rightarrow> json \<Rightarrow> pyexn + decimal" where
  "to_decimal svc x =
     (if decimal_literal svc (py_str svc x) then Inr (Decimal (py_str svc x)) else Inl InvalidOperation)"

text \<open>\<^verbatim>\<open>batch_item_failures.append({'itemIdentifier': record['messageId']})\<close>.\<close>

definition append_failure :: "json \<Rightarrow> json list \<Rightarrow> pyexn + json list" where
  "append_failure record batch_item_failures =
     (case subscript record ''messageId'' of
        Inl e \<Rightarrow> Inl e
      | Inr message_id \<Rightarrow> Inr (batch_item_failures @ [JDict [(''itemIdentifier'', message_id)]]))"

text \<open>The inner \<^verbatim>\<open>try\<close> around the classifier: the call and the two reads of the response.\<close>

definition comprehend_try :: "services \<Rightarrow> nat \<Rightarrow> json \<Rightarrow> pyexn + json \<times> json" where
  "comprehend_try svc i text' =
     (case detect_sentiment svc i text' ''en'' of
        Inl e \<Rightarrow> Inl e
      | Inr sentiment_response \<Rightarrow>
          (case subscript sentiment_response ''Sentiment'' of
             Inl e \<Rightarrow> Inl e
           | Inr sentiment' \<Rightarrow>
               (case subscript sentiment_response ''SentimentScore'' of
                  Inl e \<Rightarrow> Inl e
                | Inr sentiment_scores \<Rightarrow> Inr (sentiment', sentiment_scores))))"

text \<open>
  From the computation of the TTL to the end of the \<^verbatim>\<open>try\<close> block: the item is built
  (the conversion of the rating may raise), then written.
\<close>

definition persist :: "services \<Rightarrow> config \<Rightarrow> nat \<Rightarrow> json \<Rightarrow> json \<Rightarrow> json \<Rightarrow> json \<Rightarrow> json \<Rightarrow> json \<Rightarrow> json \<Rightarrow> json \<Rightarrow>
    json list \<times> world \<Rightarrow> (pyexn + json list) \<times> world" where
  "persist svc cfg i record survey_id customer_id rating' text' timestamp sentiment' sentiment_scores st =
     (let created_at = int_of_float (time_time svc i);
          expires_at = created_at + (TTL_DAYS cfg * 24 * 60 * 60)
      in case to_decimal svc rating' of
           Inl e \<Rightarrow> (Inl e, snd st)
         | Inr dec \<Rightarrow>
             (let item = \<lparr>pk = ''SURVEY#'' @ py_str svc survey_id,
                          customerId = customer_id,
                          surveyId = survey_id,
                          rating = dec,
                          text = text',
                          sentiment = sentiment',
                          score = json_dumps svc sentiment_scores,
                          createdAt = created_at,
                          expiresAt = expires_at,
                          originalTimestamp = timestamp\<rparr>;
                  w = (snd st)\<lparr>put_calls := put_calls (snd st) @ [item]\<rparr>
              in case put_item svc i (TABLE_NAME cfg) item of
                   None \<Rightarrow> (Inr (fst st), w\<lparr>table := (table w)(pk item \<mapsto> item)\<rparr>)
                 | Some e \<Rightarrow> (append_failure record (fst st), w)))"

text \<open>
  The body of the outer \<^verbatim>\<open>try\<close>. An exception leaves with \<open>Inl\<close>; every other way out
  is a \<^verbatim>\<open>continue\<close> or the end of the block, with the failure list as it then is.
\<close>

definition try_body :: "services \<Rightarrow> config \<Rightarrow> nat \<Rightarrow> json \<Rightarrow> json list \<times> world \<Rightarrow> (pyexn + json list) \<times> world" where
  "try_body svc cfg i record st =
     (case subscript record ''body'' of Inl e \<Rightarrow> (Inl e, snd st) | Inr body \<Rightarrow>
      case py_json_loads svc body of Inl e \<Rightarrow> (Inl e, snd st) | Inr message_body \<Rightarrow>
      case dict_get message_body ''surveyId'' JNull of Inl e \<Rightarrow> (Inl e, snd st) | Inr survey_id \<Rightarrow>
      case dict_get message_body ''customerId'' JNull of Inl e \<Rightarrow> (Inl e, snd st) | Inr customer_id \<Rightarrow>
      case dict_get message_body ''rating'' JNull of Inl e \<Rightarrow> (Inl e, snd st) | Inr rating' \<Rightarrow>
      case dict_get message_body ''text'' JNull of Inl e \<Rightarrow> (Inl e, snd st) | Inr text' \<Rightarrow>
      case dict_get message_body ''timestamp'' JNull of Inl e \<Rightarrow> (Inl e, snd st) | Inr timestamp \<Rightarrow>
      if \<not> list_all truthy [survey_id, customer_id, rating', text']
      then (append_failure record (fst st), snd st)
      else
        (let w = (snd st)\<lparr>comprehend_calls := comprehend_calls (snd st) @ [text']\<rparr>
         in case comprehend_try svc i text' of
              Inl e \<Rightarrow> (append_failure record (fst st), w)
            | Inr (sentiment', sentiment_scores) \<Rightarrow>
                persist svc cfg i record survey_id customer_id rating' text' timestamp
                  sentiment' sentiment_scores (fst st, w)))"

text \<open>
  One turn of the loop: the \<^verbatim>\<open>try\<close> with its two handlers. Both
  (\<^verbatim>\<open>json.JSONDecodeError\<close> and \<^verbatim>\<open>Exception\<close>) append the failure and continue; they
  differ in the log line only. An exception raised inside a handler leaves the loop.
\<close>

definition handle_record :: "services \<Rightarrow> config \<Rightarrow> nat \<Rightarrow> json \<Rightarrow> json list \<times> world \<Rightarrow> (pyexn + json list) \<times> world" where
  "handle_record svc cfg i record st =
     (case try_body svc cfg i record st of
        (Inr batch_item_failures, w) \<Rightarrow> (Inr batch_item_failures, w)
      | (Inl e, w) \<Rightarrow> (append_failure record (fst st), w))"

fun for_records :: "services \<Rightarrow> config \<Rightarrow> nat \<Rightarrow> json list \<Rightarrow> json list \<times> world \<Rightarrow> (pyexn + json list) \<times> world" where
  "for_records svc cfg i [] st = (Inr (fst st), snd st)"
| "for_records svc cfg i (record # records) st =
     (case handle_record svc cfg i record st of
        (Inl e, w) \<Rightarrow> (Inl e, w)
      | (Inr batch_item_failures, w) \<Rightarrow> for_records svc cfg (Suc i) records (batch_item_failures, w))"

text \<open>\<^verbatim>\<open>{'statusCode': 200, 'body': json.dumps('Successfully processed all records')}\<close>.\<close>

definition success_response :: json where
  "success_response =
     JDict [(''statusCode'', JInt 200),
            (''body'', JStr (CHR 0x22 # ''Successfully processed all records'' @ [CHR 0x22]))]"

text \<open>The handler; its \<^verbatim>\<open>context\<close> argument is never read.\<close>

definition lambda_handler :: "services \<Rightarrow> config \<Rightarrow> json \<Rightarrow> world \<Rightarrow> (pyexn + json) \<times> world" where
  "lambda_handler svc cfg event w =
     (case dict_get event ''Records'' (JList []) of Inl e \<Rightarrow> (Inl e, w) | Inr records \<Rightarrow>
      case py_iter records of Inl e \<Rightarrow> (Inl e, w) | Inr rs \<Rightarrow>
      case for_records svc cfg 0 rs ([], w) of
        (Inl e, w') \<Rightarrow> (Inl e, w')
      | (Inr batch_item_failures, w') \<Rightarrow>
          (Inr (if batch_item_failures \<noteq> []
                then JDict [(''batchItemFailures'', JList batch_item_failures)]
                else success_response), w'))"

section \<open>The authorizer: \<^verbatim>\<open>authorizer.py\<close>\<close>












section \<open>The consumer, envelope by envelope\<close>

text \<open>
  The per-envelope algorithm as a result value: parse, validate, classify, enrich and
  persist, each step either passing on or ending the envelope with its failure. These
  definitions say what one envelope amounts to; the lemmas below show that the handler,
  with its exceptions and handlers, computes exactly this for every envelope.
\<close>

definition field :: "(string \<times> json) list \<Rightarrow> string \<Rightarrow> json" where
  "field kvs k = (case map_of kvs k of None \<Rightarrow> JNull | Some v \<Rightarrow> v)"

text \<open>Parse: the body is there, is a string, deserializes, and to an object.\<close>

definition submission :: "services \<Rightarrow> json \<Rightarrow> (string \<times> json) list option" where
  "submission svc record =
     (case subscript record ''body'' of
        Inr (JStr b) \<Rightarrow> (case json_loads svc b of Inr (JDict kvs) \<Rightarrow> Some kvs | _ \<Rightarrow> None)
      | _ \<Rightarrow> None)"

text \<open>Validate: the four required fields pass the handler's test.\<close>

definition complete_fields :: "(string \<times> json) list \<Rightarrow> bool" where
  "complete_fields kvs =
     (truthy (field kvs ''surveyId'') \<and> truthy (field kvs ''customerId'') \<and>
      truthy (field kvs ''rating'') \<and> truthy (field kvs ''text''))"

text \<open>Classify: the service answers with an object holding a label and scores.\<close>

definition classify :: "services \<Rightarrow> nat \<Rightarrow> json \<Rightarrow> (json \<times> json) option" where
  "classify svc i t =
     (case detect_sentiment svc i t ''en'' of
        Inr (JDict resp) \<Rightarrow>
          (case map_of resp ''Sentiment'' of None \<Rightarrow> None
           | Some label \<Rightarrow>
               (case map_of resp ''SentimentScore'' of None \<Rightarrow> None
                | Some scores \<Rightarrow> Some (label, scores)))
      | _ \<Rightarrow> None)"

text \<open>Enrich: the Survey Record, if the rating converts to a decimal.\<close>

definition survey_record :: "services \<Rightarrow> config \<Rightarrow> nat \<Rightarrow> (string \<times> json) list \<Rightarrow> json \<Rightarrow> json \<Rightarrow> item option" where
  "survey_record svc cfg i kvs label scores =
     (if decimal_literal svc (py_str svc (field kvs ''rating''))
      then Some \<lparr>pk = ''SURVEY#'' @ py_str svc (field kvs ''surveyId''),
                 customerId = field kvs ''customerId'',
                 surveyId = field kvs ''surveyId'',
                 rating = Decimal (py_str svc (field kvs ''rating'')),
                 text = field kvs ''text'',
                 sentiment = label,
                 score = json_dumps svc scores,
                 createdAt = int_of_float (time_time svc i),
                 expiresAt = int_of_float (time_time svc i) + TTL_DAYS cfg * 86400,
                 originalTimestamp = field kvs ''timestamp''\<rparr>
      else None)"

text \<open>
  How an envelope ends. The outcomes from \<open>ClassificationFailed\<close> on carry the text that
  was sent to the classifier, the last two the item that was sent to the store.
\<close>

datatype outcome =
    Malformed
  | Incomplete
  | ClassificationFailed json
  | ConversionFailed json
  | StoreFailed json item
  | Persisted json item

definition envelope_outcome :: "services \<Rightarrow> config \<Rightarrow> nat \<Rightarrow> json \<Rightarrow> outcome" where
  "envelope_outcome svc cfg i record =
     (case submission svc record of None \<Rightarrow> Malformed
      | Some kvs \<Rightarrow>
          if \<not> complete_fields kvs then Incomplete
          else (case classify svc i (field kvs ''text'') of
                  None \<Rightarrow> ClassificationFailed (field kvs ''text'')
                | Some (label, scores) \<Rightarrow>
                    (case survey_record svc cfg i kvs label scores of
                       None \<Rightarrow> ConversionFailed (field kvs ''text'')
                     | Some it \<Rightarrow>
                         if put_item svc i (TABLE_NAME cfg) it = None
                         then Persisted (field kvs ''text'') it
                         else StoreFailed (field kvs ''text'') it)))"

fun failed :: "outcome \<Rightarrow> bool" where
  "failed (Persisted t it) = False"
| "failed _ = True"

text \<open>What an outcome leaves in the world.\<close>

fun apply_outcome :: "outcome \<Rightarrow> world \<Rightarrow> world" where
  "apply_outcome Malformed w = w"
| "apply_outcome Incomplete w = w"
| "apply_outcome (ClassificationFailed t) w = w\<lparr>comprehend_calls := comprehend_calls w @ [t]\<rparr>"
| "apply_outcome (ConversionFailed t) w = w\<lparr>comprehend_calls := comprehend_calls w @ [t]\<rparr>"
| "apply_outcome (StoreFailed t it) w =
     w\<lparr>comprehend_calls := comprehend_calls w @ [t], put_calls := put_calls w @ [it]\<rparr>"
| "apply_outcome (Persisted t it) w =
     w\<lparr>comprehend_calls := comprehend_calls w @ [t], put_calls := put_calls w @ [it],
       table := (table w)(pk it \<mapsto> it)\<rparr>"

text \<open>The item an outcome sent to the store, if it came that far.\<close>

fun written :: "outcome \<Rightarrow> item list" where
  "written (StoreFailed t it) = [it]"
| "written (Persisted t it) = [it]"
| "written _ = []"

text \<open>The envelope's identifier and its entry in the failure list.\<close>

definition envelope_id :: "json \<Rightarrow> json" where
  "envelope_id record = (case subscript record ''messageId'' of Inr m \<Rightarrow> m | Inl e \<Rightarrow> JNull)"

definition failure_entry :: "json \<Rightarrow> json" where
  "failure_entry message_id = JDict [(''itemIdentifier'', message_id)]"

text \<open>
  The batch: the failure entries of the envelopes that failed, in batch order, and the
  world after the outcomes of all envelopes; \<open>i\<close> is the position of the first envelope.
\<close>

fun batch_failures :: "services \<Rightarrow> config \<Rightarrow> nat \<Rightarrow> json list \<Rightarrow> json list" where
  "batch_failures svc cfg i [] = []"
| "batch_failures svc cfg i (r # rs) =
     (if failed (envelope_outcome svc cfg i r) then [failure_entry (envelope_id r)] else [])
     @ batch_failures svc cfg (Suc i) rs"

fun batch_world :: "services \<Rightarrow> config \<Rightarrow> nat \<Rightarrow> json list \<Rightarrow> world \<Rightarrow> world" where
  "batch_world svc cfg i [] w = w"
| "batch_world svc cfg i (r # rs) w =
     batch_world svc cfg (Suc i) rs (apply_outcome (envelope_outcome svc cfg i r) w)"

text \<open>The failure list the messaging substrate reads off a response: none when the key is absent.\<close>

definition reported_failures :: "json \<Rightarrow> json list" where
  "reported_failures response =
     (case dict_get response ''batchItemFailures'' (JList []) of Inr (JList fs) \<Rightarrow> fs | _ \<Rightarrow> [])"

section \<open>Example data\<close>

text \<open>
  Concrete envelopes and services on which the theorems below are instantiated. The
  bodies are the submissions of the specification's examples; \<open>example_services\<close>
  answers as the Python library and a classifier stub do on the values that occur here:
  the classifier is unavailable for the envelope at position 1 and answers POSITIVE
  elsewhere, the store accepts every write.
\<close>

definition good_body :: string where
  \<open>good_body = ''{"surveyId":"s1","customerId":"c1","rating":5,"text":"Great service!","timestamp":"2024-01-01T00:00:00Z"}''\<close>

definition good_submission :: "(string \<times> json) list" where
  "good_submission =
     [(''surveyId'', JStr ''s1''), (''customerId'', JStr ''c1''), (''rating'', JInt 5),
      (''text'', JStr ''Great service!''), (''timestamp'', JStr ''2024-01-01T00:00:00Z'')]"

definition stale_body :: string where
  \<open>stale_body = ''{"surveyId":"s1","customerId":"c1","rating":5,"text":"Great service!","timestamp":"1999-12-31T23:59:59Z"}''\<close>

definition stale_submission :: "(string \<times> json) list" where
  "stale_submission =
     [(''surveyId'', JStr ''s1''), (''customerId'', JStr ''c1''), (''rating'', JInt 5),
      (''text'', JStr ''Great service!''), (''timestamp'', JStr ''1999-12-31T23:59:59Z'')]"

definition no_survey_id_body :: string where
  \<open>no_survey_id_body = ''{"customerId":"c2","rating":3,"text":"ok"}''\<close>

definition no_survey_id_submission :: "(string \<times> json) list" where
  "no_survey_id_submission = [(''customerId'', JStr ''c2''), (''rating'', JInt 3), (''text'', JStr ''ok'')]"

definition zero_rating_body :: string where
  \<open>zero_rating_body = ''{"surveyId":"s3","customerId":"c3","rating":0,"text":"ok"}''\<close>

definition zero_rating_submission :: "(string \<times> json) list" where
  "zero_rating_submission =
     [(''surveyId'', JStr ''s3''), (''customerId'', JStr ''c3''), (''rating'', JInt 0), (''text'', JStr ''ok'')]"

definition example_loads :: "string \<Rightarrow> pyexn + json" where
  "example_loads s =
     (if s = good_body then Inr (JDict good_submission)
      else if s = stale_body then Inr (JDict stale_submission)
      else if s = no_survey_id_body then Inr (JDict no_survey_id_submission)
      else if s = zero_rating_body then Inr (JDict zero_rating_submission)
      else Inl JSONDecodeError)"

definition example_scores :: json where
  "example_scores =
     JDict [(''Positive'', JFloat (Finite 0.98)), (''Negative'', JFloat (Finite 0.01)),
            (''Neutral'', JFloat (Finite 0.01)), (''Mixed'', JFloat (Finite 0))]"

definition example_scores_json :: string where
  \<open>example_scores_json = ''{"Positive": 0.98, "Negative": 0.01, "Neutral": 0.01, "Mixed": 0.0}''\<close>

definition example_services :: services where
  "example_services =
     \<lparr>json_loads = example_loads,
      json_dumps = (\<lambda>v. if v = example_scores then example_scores_json else ''null''),
      repr = (\<lambda>v. case v of JInt n \<Rightarrow> (if 0 \<le> n \<and> n < 10 then [''0123456789'' ! nat n] else ''?'') | _ \<Rightarrow> ''?''),
      decimal_literal = (\<lambda>s. s \<noteq> [] \<and> list_all (\<lambda>c. digit_of c \<noteq> None) s),
      detect_sentiment = (\<lambda>i t language_code.
         if i = 1 then Inl (OtherError ''ClientError'')
         else Inr (JDict [(''Sentiment'', JStr ''POSITIVE''), (''SentimentScore'', example_scores)])),
      time_time = (\<lambda>i. 1700000000.5 + real i),
      put_item = (\<lambda>i table_name it. None)\<rparr>"

definition example_config :: config where
  "example_config = \<lparr>TABLE_NAME = ''surveys'', TTL_DAYS = 365\<rparr>"

definition empty_world :: world where
  "empty_world = \<lparr>table = Map.empty, comprehend_calls = [], put_calls = []\<rparr>"

definition envelope :: "string \<Rightarrow> string \<Rightarrow> json" where
  "envelope message_id body = JDict [(''messageId'', JStr message_id), (''body'', JStr body)]"

definition batch_event :: "json list \<Rightarrow> json" where
  "batch_event records = JDict [(''Records'', JList records)]"

text \<open>
  A batch of five: a good envelope, one whose classifier call fails, one without
  \<^verbatim>\<open>surveyId\<close>, one that is not JSON, and the first submission once more.
\<close>

definition example_batch :: "json list" where
  "example_batch =
     [envelope ''m0'' good_body, envelope ''m1'' stale_body, envelope ''m2'' no_survey_id_body,
      envelope ''m3'' ''not json'', envelope ''m4'' good_body]"

text \<open>
  The record of the first submission, processed at position \<open>i\<close> with the caller's
  timestamp \<open>ts\<close>: the example clock reads 1700000000.5 + i, the retention is 365 days.
\<close>

definition example_item :: "nat \<Rightarrow> string \<Rightarrow> item" where
  "example_item i ts =
     \<lparr>pk = ''SURVEY#s1'', customerId = JStr ''c1'', surveyId = JStr ''s1'',
      rating = Decimal ''5'', text = JStr ''Great service!'', sentiment = JStr ''POSITIVE'',
      score = example_scores_json, createdAt = 1700000000 + int i, expiresAt = 1731536000 + int i,
      originalTimestamp = JStr ts\<rparr>"




section \<open>The handler computes the outcome of every envelope\<close>

lemma comprehend_try_Inl:
  "classify svc i t = None \<Longrightarrow> \<exists>e. comprehend_try svc i t = Inl e"
  by (cases "detect_sentiment svc i t ''en''")
     (auto simp: comprehend_try_def classify_def split: sum.splits json.splits option.splits)

lemma comprehend_try_Inr:
  "classify svc i t = Some p \<Longrightarrow> comprehend_try svc i t = Inr p"
  by (auto simp: comprehend_try_def classify_def split: sum.splits json.splits option.splits)

lemma try_body_malformed:
  "submission svc record = None \<Longrightarrow> \<exists>e. try_body svc cfg i record st = (Inl e, snd st)"
  by (auto simp: submission_def try_body_def py_json_loads_def split: sum.splits json.splits)

lemma try_body_submission:
  "submission svc record = Some kvs \<Longrightarrow>
   try_body svc cfg i record st =
     (if \<not> complete_fields kvs then (append_failure record (fst st), snd st)
      else case comprehend_try svc i (field kvs ''text'') of
             Inl e \<Rightarrow> (append_failure record (fst st),
                        (snd st)\<lparr>comprehend_calls := comprehend_calls (snd st) @ [field kvs ''text'']\<rparr>)
           | Inr p \<Rightarrow>
               persist svc cfg i record (field kvs ''surveyId'') (field kvs ''customerId'')
                 (field kvs ''rating'') (field kvs ''text'') (field kvs ''timestamp'') (fst p) (snd p)
                 (fst st, (snd st)\<lparr>comprehend_calls := comprehend_calls (snd st) @ [field kvs ''text'']\<rparr>))"
  by (auto simp: submission_def try_body_def py_json_loads_def complete_fields_def field_def Let_def
           split: sum.splits json.splits prod.splits)

lemma seconds_per_day: "(d::int) * 24 * 60 * 60 = d * 86400"
  by simp

lemma persist_conversion_failed:
  "survey_record svc cfg i kvs label scores = None \<Longrightarrow>
   persist svc cfg i record (field kvs ''surveyId'') (field kvs ''customerId'')
     (field kvs ''rating'') (field kvs ''text'') (field kvs ''timestamp'') label scores st
   = (Inl InvalidOperation, snd st)"
  by (simp add: survey_record_def persist_def to_decimal_def Let_def split: if_splits)

lemma persist_record:
  assumes "survey_record svc cfg i kvs label scores = Some it"
  shows "persist svc cfg i record (field kvs ''surveyId'') (field kvs ''customerId'')
     (field kvs ''rating'') (field kvs ''text'') (field kvs ''timestamp'') label scores st
   = (case put_item svc i (TABLE_NAME cfg) it of
        None \<Rightarrow> (Inr (fst st), (snd st)\<lparr>put_calls := put_calls (snd st) @ [it],
                                         table := (table (snd st))(pk it \<mapsto> it)\<rparr>)
      | Some e \<Rightarrow> (append_failure record (fst st), (snd st)\<lparr>put_calls := put_calls (snd st) @ [it]\<rparr>))"
proof -
  from assms have dl: "decimal_literal svc (py_str svc (field kvs ''rating''))"
    by (simp add: survey_record_def split: if_splits)
  with assms have it: "it = \<lparr>pk = ''SURVEY#'' @ py_str svc (field kvs ''surveyId''),
                 customerId = field kvs ''customerId'',
                 surveyId = field kvs ''surveyId'',
                 rating = Decimal (py_str svc (field kvs ''rating'')),
                 text = field kvs ''text'',
                 sentiment = label,
                 score = json_dumps svc scores,
                 createdAt = int_of_float (time_time svc i),
                 expiresAt = int_of_float (time_time svc i) + TTL_DAYS cfg * 86400,
                 originalTimestamp = field kvs ''timestamp''\<rparr>"
    by (simp add: survey_record_def)
  show ?thesis
    unfolding persist_def seconds_per_day
    using dl by (simp add: it to_decimal_def Let_def split: option.splits)
qed

lemma handle_record_eq:
  assumes "subscript record ''messageId'' = Inr message_id"
  shows "handle_record svc cfg i record (fs, w) =
     (Inr (fs @ (if failed (envelope_outcome svc cfg i record) then [failure_entry message_id] else [])),
      apply_outcome (envelope_outcome svc cfg i record) w)"
proof -
  have app: "append_failure record fs = Inr (fs @ [failure_entry message_id])"
    using assms by (simp add: append_failure_def failure_entry_def)
  show ?thesis
  proof (cases "submission svc record")
    case None
    then obtain e where "try_body svc cfg i record (fs, w) = (Inl e, w)"
      using try_body_malformed[of svc "record" cfg i "(fs, w)"] by auto
    with None app show ?thesis
      by (simp add: handle_record_def envelope_outcome_def)
  next
    case (Some kvs)
    note tb = try_body_submission[OF Some, of cfg i "(fs, w)"]
    show ?thesis
    proof (cases "complete_fields kvs")
      case False
      with Some tb app show ?thesis
        by (simp add: handle_record_def envelope_outcome_def)
    next
      case True
      show ?thesis
      proof (cases "classify svc i (field kvs ''text'')")
        case None
        then obtain e where "comprehend_try svc i (field kvs ''text'') = Inl e"
          using comprehend_try_Inl by blast
        with Some True None tb app show ?thesis
          by (simp add: handle_record_def envelope_outcome_def)
      next
        case (Some p)
        then have ct: "comprehend_try svc i (field kvs ''text'') = Inr p"
          by (rule comprehend_try_Inr)
        obtain label scores where p: "p = (label, scores)" by (cases p)
        show ?thesis
        proof (cases "survey_record svc cfg i kvs label scores")
          case None
          from persist_conversion_failed[OF None] ct p tb True \<open>submission svc record = Some kvs\<close> Some None app
          show ?thesis
            by (simp add: handle_record_def envelope_outcome_def)
        next
          case (Some it)
          from persist_record[OF Some] ct p tb True \<open>submission svc record = Some kvs\<close>
            \<open>classify svc i (field kvs ''text'') = Some p\<close> Some app
          show ?thesis
            by (cases "put_item svc i (TABLE_NAME cfg) it")
               (simp_all add: handle_record_def envelope_outcome_def)
        qed
      qed
    qed
  qed
qed


lemma handle_record_snd:
  "snd (handle_record svc cfg i record st) = snd (try_body svc cfg i record st)"
  by (simp add: handle_record_def split: prod.splits sum.splits)

lemma handle_record_world:
  "snd (handle_record svc cfg i record (fs, w)) = apply_outcome (envelope_outcome svc cfg i record) w"
proof (cases "submission svc record")
  case None
  then obtain e where "try_body svc cfg i record (fs, w) = (Inl e, w)"
    using try_body_malformed[of svc "record" cfg i "(fs, w)"] by auto
  with None show ?thesis
    by (simp add: handle_record_snd envelope_outcome_def)
next
  case (Some kvs)
  note tb = try_body_submission[OF Some, of cfg i "(fs, w)"]
  show ?thesis
  proof (cases "complete_fields kvs")
    case False
    with Some tb show ?thesis
      by (simp add: handle_record_snd envelope_outcome_def)
  next
    case True
    show ?thesis
    proof (cases "classify svc i (field kvs ''text'')")
      case None
      then obtain e where "comprehend_try svc i (field kvs ''text'') = Inl e"
        using comprehend_try_Inl by blast
      with \<open>submission svc record = Some kvs\<close> True None tb show ?thesis
        by (simp add: handle_record_snd envelope_outcome_def)
    next
      case (Some p)
      then have ct: "comprehend_try svc i (field kvs ''text'') = Inr p"
        by (rule comprehend_try_Inr)
      obtain label scores where p: "p = (label, scores)" by (cases p)
      show ?thesis
      proof (cases "survey_record svc cfg i kvs label scores")
        case None
        from persist_conversion_failed[OF None] ct p tb True \<open>submission svc record = Some kvs\<close> Some None
        show ?thesis
          by (simp add: handle_record_snd envelope_outcome_def)
      next
        case (Some it)
        from persist_record[OF Some] ct p tb True \<open>submission svc record = Some kvs\<close>
          \<open>classify svc i (field kvs ''text'') = Some p\<close> Some
        show ?thesis
          by (cases "put_item svc i (TABLE_NAME cfg) it")
             (simp_all add: handle_record_snd envelope_outcome_def)
      qed
    qed
  qed
qed

lemma for_records_eq:
  "\<forall>r\<in>set rs. \<exists>m. subscript r ''messageId'' = Inr m \<Longrightarrow>
   for_records svc cfg i rs (fs, w) =
     (Inr (fs @ batch_failures svc cfg i rs), batch_world svc cfg i rs w)"
proof (induction rs arbitrary: i fs w)
  case Nil
  show ?case by simp
next
  case (Cons r rs)
  then obtain m where m: "subscript r ''messageId'' = Inr m" by auto
  then have id: "envelope_id r = m" by (simp add: envelope_id_def)
  from Cons.prems have rest: "\<forall>r\<in>set rs. \<exists>m. subscript r ''messageId'' = Inr m" by simp
  show ?case
    by (simp add: handle_record_eq[OF m] id Cons.IH[OF rest])
qed

lemma for_records_invariant:
  assumes step: "\<And>j r w. P w \<Longrightarrow> P (apply_outcome (envelope_outcome svc cfg j r) w)"
    and "P w"
  shows "P (snd (for_records svc cfg i rs (fs, w)))"
  using \<open>P w\<close>
proof (induction rs arbitrary: i fs w)
  case Nil
  then show ?case by simp
next
  case (Cons r rs)
  obtain res w1 where h: "handle_record svc cfg i r (fs, w) = (res, w1)"
    by (cases "handle_record svc cfg i r (fs, w)")
  with handle_record_world[of svc cfg i r fs w]
  have w1: "w1 = apply_outcome (envelope_outcome svc cfg i r) w" by simp
  with step[OF Cons.prems] have "P w1" by simp
  then show ?case
    using h Cons.IH[of w1] by (cases res) simp_all
qed

lemma lambda_handler_invariant:
  assumes step: "\<And>j r w. P w \<Longrightarrow> P (apply_outcome (envelope_outcome svc cfg j r) w)"
    and "P w"
  shows "P (snd (lambda_handler svc cfg event w))"
proof (cases "dict_get event ''Records'' (JList [])")
  case (Inl e)
  with \<open>P w\<close> show ?thesis by (simp add: lambda_handler_def)
next
  case (Inr records)
  show ?thesis
  proof (cases "py_iter records")
    case (Inl e)
    with Inr \<open>P w\<close> show ?thesis by (simp add: lambda_handler_def)
  next
    case rs: (Inr rs)
    from for_records_invariant[of P svc cfg w 0 rs "[]", OF step \<open>P w\<close>]
    have "P (snd (for_records svc cfg 0 rs ([], w)))" by simp
    with Inr rs show ?thesis
      by (auto simp: lambda_handler_def split: prod.splits sum.splits)
  qed
qed

text \<open>
  Why the envelopes must carry a \<^verbatim>\<open>messageId\<close>: the handlers read it, and an exception
  raised in a handler is caught by nobody.
\<close>

lemma missing_message_id_aborts:
  assumes "json_loads svc b = Inl e"
  shows "lambda_handler svc cfg (JDict [(''Records'', JList [JDict [(''body'', JStr b)]])]) w
           = (Inl KeyError, w)"
  using assms
  by (simp add: lambda_handler_def handle_record_def try_body_def py_json_loads_def append_failure_def)

lemma lambda_handler_eq:
  assumes "dict_get event ''Records'' (JList []) = Inr (JList rs)"
    and "\<forall>r\<in>set rs. \<exists>m. subscript r ''messageId'' = Inr m"
  shows "lambda_handler svc cfg event w =
     (Inr (if batch_failures svc cfg 0 rs \<noteq> []
           then JDict [(''batchItemFailures'', JList (batch_failures svc cfg 0 rs))]
           else success_response),
      batch_world svc cfg 0 rs w)"
  using assms(1) for_records_eq[OF assms(2), of svc cfg 0 "[]" w]
  by (simp add: lambda_handler_def)







lemma reported_failures_batch:
  "reported_failures (if fs \<noteq> [] then JDict [(''batchItemFailures'', JList fs)] else success_response) = fs"
  by (simp add: reported_failures_def success_response_def)



lemma outcome_calls:
  "comprehend_calls (apply_outcome (envelope_outcome svc cfg i r) w) =
     comprehend_calls w @
     (case submission svc r of None \<Rightarrow> []
      | Some kvs \<Rightarrow> if complete_fields kvs then [field kvs ''text''] else [])"
  by (simp add: envelope_outcome_def split: option.splits prod.splits)

lemma batch_world_calls:
  "comprehend_calls (batch_world svc cfg i rs w) =
     comprehend_calls w @
     map (\<lambda>kvs. field kvs ''text'') (filter complete_fields (List.map_filter (submission svc) rs))"
proof (induction rs arbitrary: i w)
  case Nil
  show ?case by (simp add: List.map_filter_simps)
next
  case (Cons r rs)
  show ?case
    by (simp add: Cons.IH outcome_calls List.map_filter_simps split: option.splits)
qed

lemmas example_defs = example_batch_def envelope_def example_services_def example_loads_def
  good_body_def stale_body_def no_survey_id_body_def zero_rating_body_def
  good_submission_def stale_submission_def no_survey_id_submission_def zero_rating_submission_def
  example_config_def empty_world_def example_scores_def batch_event_def

lemmas outcome_defs = envelope_outcome_def submission_def complete_fields_def field_def
  classify_def survey_record_def py_str_def digit_of_def int_of_float_def
  failure_entry_def envelope_id_def

lemma example_batch_records:
  "dict_get (batch_event example_batch) ''Records'' (JList []) = Inr (JList example_batch)"
  by (simp add: batch_event_def)

lemma example_batch_ids:
  "\<forall>r\<in>set example_batch. \<exists>m. subscript r ''messageId'' = Inr m"
  by (simp add: example_batch_def envelope_def)

lemma example_batch_failures:
  "batch_failures example_services example_config 0 example_batch =
     [failure_entry (JStr ''m1''), failure_entry (JStr ''m2''), failure_entry (JStr ''m3'')]"
  by (simp add: example_defs outcome_defs)

lemma example_batch_submissions:
  "List.map_filter (submission example_services) example_batch =
     [good_submission, stale_submission, no_survey_id_submission, good_submission]"
  by (simp add: List.map_filter_simps submission_def example_batch_def envelope_def
        example_services_def example_loads_def
        good_body_def stale_body_def no_survey_id_body_def zero_rating_body_def)

section \<open>The claims\<close>

text \<open>
  C9. An event without a \<^verbatim>\<open>Records\<close> key, or with an empty \<^verbatim>\<open>Records\<close> list, gets the
  full-success response: status code 200 and no \<^verbatim>\<open>batchItemFailures\<close> key. The world is
  returned as it was: no classifier call, no store write, no change of the table.
\<close>

theorem empty_batch_full_success:
  assumes "map_of kvs ''Records'' = None \<or> map_of kvs ''Records'' = Some (JList [])"
  shows "lambda_handler svc cfg (JDict kvs) w = (Inr success_response, w) \<and>
         subscript success_response ''statusCode'' = Inr (JInt 200) \<and>
         subscript success_response ''batchItemFailures'' = Inl KeyError"
  using assms by (auto simp: lambda_handler_def success_response_def)

theorem empty_batch_full_success_witness:
  "(map_of [(''Records'', JList [])] ''Records'' = None \<or>
    map_of [(''Records'', JList [])] ''Records'' = Some (JList [])) \<and>
   lambda_handler example_services example_config (JDict [(''Records'', JList [])]) empty_world
     = (Inr success_response, empty_world)"
  using empty_batch_full_success[of "[(''Records'', JList [])]" example_services example_config empty_world]
  by simp

text \<open>
  C1. For a batch whose envelopes all carry a \<^verbatim>\<open>messageId\<close>, the handler returns a
  response, never an exception, whatever fails in whichever envelope. Every envelope is
  processed: the world it returns is the world after the outcomes of all envelopes of the
  batch, the failure list is that of all of them, and every envelope whose body is a
  submission with the four required fields has had its classifier call, in batch order,
  wherever in the batch the failures lie.
\<close>

theorem batch_never_aborts:
  assumes "dict_get event ''Records'' (JList []) = Inr (JList rs)"
    and "\<forall>r\<in>set rs. \<exists>m. subscript r ''messageId'' = Inr m"
  shows "\<exists>response w'.
           lambda_handler svc cfg event w = (Inr response, w') \<and>
           w' = batch_world svc cfg 0 rs w \<and>
           reported_failures response = batch_failures svc cfg 0 rs \<and>
           comprehend_calls w' =
             comprehend_calls w @
             map (\<lambda>kvs. field kvs ''text'') (filter complete_fields (List.map_filter (submission svc) rs))"
proof (intro exI conjI)
  show "lambda_handler svc cfg event w =
     (Inr (if batch_failures svc cfg 0 rs \<noteq> []
           then JDict [(''batchItemFailures'', JList (batch_failures svc cfg 0 rs))]
           else success_response),
      batch_world svc cfg 0 rs w)"
    by (rule lambda_handler_eq[OF assms])
qed (rule refl reported_failures_batch batch_world_calls)+

theorem batch_never_aborts_witness:
  "dict_get (batch_event example_batch) ''Records'' (JList []) = Inr (JList example_batch) \<and>
   list_all (\<lambda>r. \<exists>m. subscript r ''messageId'' = Inr m) example_batch \<and>
   (\<exists>response w'.
      lambda_handler example_services example_config (batch_event example_batch) empty_world
        = (Inr response, w') \<and>
      reported_failures response =
        [failure_entry (JStr ''m1''), failure_entry (JStr ''m2''), failure_entry (JStr ''m3'')] \<and>
      comprehend_calls w' = [JStr ''Great service!'', JStr ''Great service!'', JStr ''Great service!''])"
proof -
  from batch_never_aborts[OF example_batch_records example_batch_ids,
      of example_services example_config empty_world]
  obtain response w' where
    run: "lambda_handler example_services example_config (batch_event example_batch) empty_world
            = (Inr response, w')"
    and fs: "reported_failures response = batch_failures example_services example_config 0 example_batch"
    and calls: "comprehend_calls w' = comprehend_calls empty_world @
        map (\<lambda>kvs. field kvs ''text'')
          (filter complete_fields (List.map_filter (submission example_services) example_batch))"
    by blast
  have "comprehend_calls w' = [JStr ''Great service!'', JStr ''Great service!'', JStr ''Great service!'']"
    unfolding calls example_batch_submissions
    by (simp add: empty_world_def complete_fields_def field_def good_submission_def
          stale_submission_def no_survey_id_submission_def)
  with run fs example_batch_failures example_batch_records example_batch_ids show ?thesis
    by (intro conjI exI[of _ response] exI[of _ w']) (simp_all add: list_all_iff)
qed




lemma survey_record_fields:
  assumes "survey_record svc cfg i kvs label scores = Some it"
  shows "pk it = ''SURVEY#'' @ py_str svc (surveyId it)"
    and "createdAt it = int_of_float (time_time svc i)"
    and "expiresAt it = createdAt it + TTL_DAYS cfg * 86400"
    and "originalTimestamp it = field kvs ''timestamp''"
    and "surveyId it = field kvs ''surveyId''"
  using assms by (auto simp: survey_record_def split: if_splits)

lemma outcome_written:
  assumes "it \<in> set (written (envelope_outcome svc cfg i r))"
  shows "\<exists>kvs label scores. submission svc r = Some kvs \<and> survey_record svc cfg i kvs label scores = Some it"
proof (cases "submission svc r")
  case None
  with assms show ?thesis by (simp add: envelope_outcome_def)
next
  case (Some kvs)
  with assms show ?thesis
    by (fastforce simp: envelope_outcome_def split: if_splits option.splits)
qed

lemma apply_outcome_table:
  "table (apply_outcome out w) k = Some it \<Longrightarrow> table w k = Some it \<or> (k = pk it \<and> it \<in> set (written out))"
  by (cases out) (auto split: if_splits)

lemma apply_outcome_put_calls:
  "put_calls (apply_outcome out w) = put_calls w @ written out"
  by (cases out) auto

lemma example_clock: "int_of_float (1700000000.5 + real i) = 1700000000 + int i"
proof -
  have "\<lfloor>1700000000.5 + real_of_int (int i)\<rfloor> = \<lfloor>1700000000.5::real\<rfloor> + int i"
    by (rule floor_add_int[symmetric])
  then show ?thesis by (simp add: int_of_float_def)
qed

lemmas example_outcome_defs = envelope_outcome_def submission_def complete_fields_def field_def
  classify_def survey_record_def py_str_def digit_of_def failure_entry_def envelope_id_def

lemma example_outcome_good:
  "i \<noteq> 1 \<Longrightarrow>
   envelope_outcome example_services example_config i (envelope m good_body) =
     Persisted (JStr ''Great service!'') (example_item i ''2024-01-01T00:00:00Z'')"
  using example_clock[of i]
  by (simp add: example_defs example_outcome_defs example_item_def)

lemma example_outcome_stale:
  "i \<noteq> 1 \<Longrightarrow>
   envelope_outcome example_services example_config i (envelope m stale_body) =
     Persisted (JStr ''Great service!'') (example_item i ''1999-12-31T23:59:59Z'')"
  using example_clock[of i]
  by (simp add: example_defs example_outcome_defs example_item_def)

lemma example_outcome_unavailable:
  "envelope_outcome example_services example_config (Suc 0) (envelope m stale_body) =
     ClassificationFailed (JStr ''Great service!'')"
  by (simp add: example_defs example_outcome_defs)

lemma example_outcome_incomplete:
  "envelope_outcome example_services example_config i (envelope m no_survey_id_body) = Incomplete"
  by (simp add: example_defs example_outcome_defs)

lemma example_outcome_malformed:
  "envelope_outcome example_services example_config i (envelope m ''not json'') = Malformed"
  by (simp add: example_defs example_outcome_defs)

lemmas example_outcomes = example_outcome_good example_outcome_stale example_outcome_unavailable
  example_outcome_incomplete example_outcome_malformed

lemma example_batch_world:
  "batch_world example_services example_config 0 example_batch empty_world =
     \<lparr>table = [''SURVEY#s1'' \<mapsto> example_item 4 ''2024-01-01T00:00:00Z''],
      comprehend_calls = [JStr ''Great service!'', JStr ''Great service!'', JStr ''Great service!''],
      put_calls = [example_item 0 ''2024-01-01T00:00:00Z'', example_item 4 ''2024-01-01T00:00:00Z'']\<rparr>"
  by (simp add: example_batch_def example_outcomes empty_world_def example_item_def)

lemma example_load_config: "load_config [''TABLE_NAME'' \<mapsto> ''surveys''] = Inr example_config"
  by (simp add: load_config_def example_config_def py_int_def strip_def is_space_def
        int_magnitude_def digit_of_def)

text \<open>
  C4. Every record that an invocation writes expires exactly the retention after its
  creation: for every record it leaves in the table, new or overwritten, and for every
  item it sends to the store, \<open>expiresAt - createdAt\<close> is \<open>TTL_DAYS\<close> days in seconds,
  the same for all of them; and \<open>TTL_DAYS\<close> is 365 when the environment does not set it.
\<close>

theorem retention_exact:
  assumes "load_config environ = Inr cfg"
    and "lambda_handler svc cfg event w = (result, w')"
  shows "(\<forall>k it. table w' k = Some it \<and> table w k \<noteq> Some it \<longrightarrow>
            expiresAt it - createdAt it = TTL_DAYS cfg * 86400) \<and>
         (\<exists>new. put_calls w' = put_calls w @ new \<and>
                (\<forall>it\<in>set new. expiresAt it - createdAt it = TTL_DAYS cfg * 86400)) \<and>
         (environ ''TTL_DAYS'' = None \<longrightarrow> TTL_DAYS cfg = 365)"
proof -
  let ?gap = "\<lambda>it. expiresAt it - createdAt it = TTL_DAYS cfg * 86400"
  let ?P = "\<lambda>v. (\<forall>k it. table v k = Some it \<longrightarrow> table w k = Some it \<or> ?gap it) \<and>
                 (\<exists>new. put_calls v = put_calls w @ new \<and> (\<forall>it\<in>set new. ?gap it))"
  have written_gap: "?gap it" if "it \<in> set (written (envelope_outcome svc cfg j r))" for it j r
  proof -
    from that obtain kvs label scores where "survey_record svc cfg j kvs label scores = Some it"
      using outcome_written by blast
    then show ?thesis by (simp add: survey_record_fields(3))
  qed
  have step: "?P (apply_outcome (envelope_outcome svc cfg j r) v)" if "?P v" for j r v
  proof (intro conjI allI impI)
    fix k it
    assume "table (apply_outcome (envelope_outcome svc cfg j r) v) k = Some it"
    then consider "table v k = Some it" | "it \<in> set (written (envelope_outcome svc cfg j r))"
      using apply_outcome_table by blast
    then show "table w k = Some it \<or> ?gap it"
    proof cases
      case 1
      with that show ?thesis by blast
    next
      case 2
      then show ?thesis by (simp add: written_gap)
    qed
  next
    from that obtain new where new: "put_calls v = put_calls w @ new" "\<forall>it\<in>set new. ?gap it"
      by blast
    let ?new = "new @ written (envelope_outcome svc cfg j r)"
    have "put_calls (apply_outcome (envelope_outcome svc cfg j r) v) = put_calls w @ ?new"
      by (simp add: apply_outcome_put_calls new(1))
    moreover have "\<forall>it\<in>set ?new. ?gap it"
      using new(2) written_gap by auto
    ultimately show "\<exists>new. put_calls (apply_outcome (envelope_outcome svc cfg j r) v) = put_calls w @ new \<and>
                      (\<forall>it\<in>set new. ?gap it)"
      by blast
  qed
  have "?P w" by simp
  with step have "?P (snd (lambda_handler svc cfg event w))"
    by (rule lambda_handler_invariant)
  with assms(2) have P: "?P w'" by simp
  have default: "TTL_DAYS cfg = 365" if "environ ''TTL_DAYS'' = None"
    using assms(1) that
    by (auto simp: load_config_def py_int_def strip_def is_space_def int_magnitude_def digit_of_def
             split: option.splits)
  from P default show ?thesis by blast
qed

theorem retention_exact_witness:
  "load_config [''TABLE_NAME'' \<mapsto> ''surveys''] = Inr example_config \<and>
   TTL_DAYS example_config = 365 \<and>
   (\<exists>result w' it.
      lambda_handler example_services example_config (batch_event example_batch) empty_world = (result, w') \<and>
      table w' ''SURVEY#s1'' = Some it \<and>
      table empty_world ''SURVEY#s1'' \<noteq> Some it \<and>
      createdAt it = 1700000004 \<and>
      expiresAt it - createdAt it = 31536000)"
proof -
  let ?it = "example_item 4 ''2024-01-01T00:00:00Z''"
  let ?w' = "batch_world example_services example_config 0 example_batch empty_world"
  obtain result where run:
    "lambda_handler example_services example_config (batch_event example_batch) empty_world = (result, ?w')"
    using lambda_handler_eq[OF example_batch_records example_batch_ids] by blast
  have stored: "table ?w' ''SURVEY#s1'' = Some ?it"
    by (simp add: example_batch_world)
  have fresh: "table empty_world ''SURVEY#s1'' \<noteq> Some ?it"
    by (simp add: empty_world_def)
  have unset: "[''TABLE_NAME'' \<mapsto> ''surveys''] ''TTL_DAYS'' = None"
    by simp
  note inst = retention_exact[OF example_load_config run]
  from inst unset have ttl: "TTL_DAYS example_config = 365" by blast
  from inst stored fresh have "expiresAt ?it - createdAt ?it = TTL_DAYS example_config * 86400"
    by blast
  with ttl have "expiresAt ?it - createdAt ?it = 31536000" by simp
  moreover have "createdAt ?it = 1700000004" by (simp add: example_item_def)
  ultimately show ?thesis
    using example_load_config run stored fresh ttl by blast
qed

text \<open>
  C5. The key under which a record is stored is \<^verbatim>\<open>SURVEY#\<close> followed by the string of
  its \<open>surveyId\<close>, a function of the \<open>surveyId\<close> alone. If the table was keyed so
  before an invocation, then afterwards it still is, every item the invocation sent to
  the store carries that key, and two records of the table with the same \<open>surveyId\<close>
  are one record under one key: an envelope processed again overwrites.
\<close>

theorem one_record_per_survey:
  assumes "\<forall>k it. table w k = Some it \<longrightarrow> k = ''SURVEY#'' @ py_str svc (surveyId it)"
    and "lambda_handler svc cfg event w = (result, w')"
  shows "(\<forall>k it. table w' k = Some it \<longrightarrow> k = ''SURVEY#'' @ py_str svc (surveyId it)) \<and>
         (\<exists>new. put_calls w' = put_calls w @ new \<and>
                (\<forall>it\<in>set new. pk it = ''SURVEY#'' @ py_str svc (surveyId it))) \<and>
         (\<forall>k1 k2 it1 it2. table w' k1 = Some it1 \<and> table w' k2 = Some it2 \<and>
              surveyId it1 = surveyId it2 \<longrightarrow> k1 = k2 \<and> it1 = it2)"
proof -
  let ?keyed = "\<lambda>it. pk it = ''SURVEY#'' @ py_str svc (surveyId it)"
  let ?P = "\<lambda>v. (\<forall>k it. table v k = Some it \<longrightarrow> k = ''SURVEY#'' @ py_str svc (surveyId it)) \<and>
                 (\<exists>new. put_calls v = put_calls w @ new \<and> (\<forall>it\<in>set new. ?keyed it))"
  have written_keyed: "?keyed it" if "it \<in> set (written (envelope_outcome svc cfg j r))" for it j r
  proof -
    from that obtain kvs label scores where "survey_record svc cfg j kvs label scores = Some it"
      using outcome_written by blast
    then show ?thesis by (rule survey_record_fields(1))
  qed
  have step: "?P (apply_outcome (envelope_outcome svc cfg j r) v)" if "?P v" for j r v
  proof (intro conjI allI impI)
    fix k it
    assume "table (apply_outcome (envelope_outcome svc cfg j r) v) k = Some it"
    then consider "table v k = Some it"
      | "k = pk it" "it \<in> set (written (envelope_outcome svc cfg j r))"
      using apply_outcome_table by blast
    then show "k = ''SURVEY#'' @ py_str svc (surveyId it)"
    proof cases
      case 1
      with that show ?thesis by blast
    next
      case 2
      with written_keyed show ?thesis by simp
    qed
  next
    from that obtain new where new: "put_calls v = put_calls w @ new" "\<forall>it\<in>set new. ?keyed it"
      by blast
    let ?new = "new @ written (envelope_outcome svc cfg j r)"
    have "put_calls (apply_outcome (envelope_outcome svc cfg j r) v) = put_calls w @ ?new"
      by (simp add: apply_outcome_put_calls new(1))
    moreover have "\<forall>it\<in>set ?new. ?keyed it"
      using new(2) written_keyed by auto
    ultimately show "\<exists>new. put_calls (apply_outcome (envelope_outcome svc cfg j r) v) = put_calls w @ new \<and>
                      (\<forall>it\<in>set new. ?keyed it)"
      by blast
  qed
  have "?P w" using assms(1) by simp
  with step have "?P (snd (lambda_handler svc cfg event w))"
    by (rule lambda_handler_invariant)
  with assms(2) have P: "?P w'" by simp
  then have keys: "\<forall>k it. table w' k = Some it \<longrightarrow> k = ''SURVEY#'' @ py_str svc (surveyId it)"
    by blast
  have one: "k1 = k2 \<and> it1 = it2"
    if "table w' k1 = Some it1 \<and> table w' k2 = Some it2 \<and> surveyId it1 = surveyId it2"
    for k1 k2 it1 it2
  proof -
    from that keys have "k1 = ''SURVEY#'' @ py_str svc (surveyId it1)"
      and "k2 = ''SURVEY#'' @ py_str svc (surveyId it2)" by blast+
    with that have "k1 = k2" by simp
    with that have "Some it1 = Some it2" by metis
    with \<open>k1 = k2\<close> show ?thesis by simp
  qed
  from P one show ?thesis by blast
qed

theorem one_record_per_survey_witness:
  "table empty_world = Map.empty \<and>
   (\<exists>result w'.
      lambda_handler example_services example_config (batch_event example_batch) empty_world = (result, w') \<and>
      put_calls w' = [example_item 0 ''2024-01-01T00:00:00Z'', example_item 4 ''2024-01-01T00:00:00Z''] \<and>
      dom (table w') = {''SURVEY#s1''} \<and>
      table w' (''SURVEY#'' @ py_str example_services (JStr ''s1'')) = Some (example_item 4 ''2024-01-01T00:00:00Z''))"
proof -
  let ?w' = "batch_world example_services example_config 0 example_batch empty_world"
  obtain result where run:
    "lambda_handler example_services example_config (batch_event example_batch) empty_world = (result, ?w')"
    using lambda_handler_eq[OF example_batch_records example_batch_ids] by blast
  have empty: "\<forall>k it. table empty_world k = Some it \<longrightarrow>
                 k = ''SURVEY#'' @ py_str example_services (surveyId it)"
    by (simp add: empty_world_def)
  have stored: "table ?w' ''SURVEY#s1'' = Some (example_item 4 ''2024-01-01T00:00:00Z'')"
    by (simp add: example_batch_world)
  from one_record_per_survey[OF empty run] stored
  have "''SURVEY#s1'' = ''SURVEY#'' @ py_str example_services (surveyId (example_item 4 ''2024-01-01T00:00:00Z''))"
    by blast
  then have "table ?w' (''SURVEY#'' @ py_str example_services (JStr ''s1'')) =
               Some (example_item 4 ''2024-01-01T00:00:00Z'')"
    using stored by (simp add: example_item_def)
  moreover have "dom (table ?w') = {''SURVEY#s1''}"
    by (simp add: example_batch_world)
  moreover have "put_calls ?w' = [example_item 0 ''2024-01-01T00:00:00Z'', example_item 4 ''2024-01-01T00:00:00Z'']"
    by (simp add: example_batch_world)
  moreover have "table empty_world = Map.empty"
    by (simp add: empty_world_def)
  ultimately show ?thesis using run by blast
qed

lemma batch_failures_append:
  "batch_failures svc cfg i (xs @ ys) =
     batch_failures svc cfg i xs @ batch_failures svc cfg (i + length xs) ys"
  by (induction xs arbitrary: i) simp_all

lemma batch_world_append:
  "batch_world svc cfg i (xs @ ys) w =
     batch_world svc cfg (i + length xs) ys (batch_world svc cfg i xs w)"
  by (induction xs arbitrary: i w) simp_all

lemma comprehend_try_failed:
  assumes "comprehend_try svc i t = Inl e"
  shows "classify svc i t = None"
proof (cases "classify svc i t")
  case None
  then show ?thesis .
next
  case (Some p)
  then have "comprehend_try svc i t = Inr p" by (rule comprehend_try_Inr)
  with assms show ?thesis by simp
qed

lemma outcome_classification_failed:
  assumes "submission svc r = Some kvs" and "complete_fields kvs"
    and "comprehend_try svc i (field kvs ''text'') = Inl e"
  shows "envelope_outcome svc cfg i r = ClassificationFailed (field kvs ''text'')"
  using assms(1,2) comprehend_try_failed[OF assms(3)]
  by (simp add: envelope_outcome_def)

text \<open>
  C6. Take a batch in which the envelope \<open>r\<close>, after \<open>pre\<close> and before \<open>post\<close>, holds a
  submission that passes validation, and let its classifier call fail (the inner
  \<^verbatim>\<open>try\<close> raises). Then \<open>r\<close> is reported as failed, once, between the failures of its
  siblings, which are what they are without regard to \<open>r\<close>; and all that \<open>r\<close> leaves in
  the world is the one classifier call: no item is sent to the store, the table is not
  touched, the call is not repeated. The same is said of the single turn of the loop,
  from any failure list and any world.
\<close>

theorem classifier_failure_isolated:
  assumes "dict_get event ''Records'' (JList []) = Inr (JList (pre @ r # post))"
    and "\<forall>x\<in>set (pre @ r # post). \<exists>m. subscript x ''messageId'' = Inr m"
    and "submission svc r = Some kvs"
    and "complete_fields kvs"
    and "comprehend_try svc (length pre) (field kvs ''text'') = Inl e"
  shows "(\<exists>response w'.
            lambda_handler svc cfg event w = (Inr response, w') \<and>
            reported_failures response =
              batch_failures svc cfg 0 pre @ [failure_entry (envelope_id r)]
                @ batch_failures svc cfg (Suc (length pre)) post \<and>
            w' = batch_world svc cfg (Suc (length pre)) post
                   ((batch_world svc cfg 0 pre w)
                      \<lparr>comprehend_calls :=
                         comprehend_calls (batch_world svc cfg 0 pre w) @ [field kvs ''text'']\<rparr>)) \<and>
         (\<forall>fs v. handle_record svc cfg (length pre) r (fs, v) =
                   (Inr (fs @ [failure_entry (envelope_id r)]),
                    v\<lparr>comprehend_calls := comprehend_calls v @ [field kvs ''text'']\<rparr>))"
proof -
  have out: "envelope_outcome svc cfg (length pre) r = ClassificationFailed (field kvs ''text'')"
    by (rule outcome_classification_failed[OF assms(3,4,5)])
  from assms(2) obtain m where m: "subscript r ''messageId'' = Inr m" by auto
  then have id: "envelope_id r = m" by (simp add: envelope_id_def)
  have fs: "batch_failures svc cfg 0 (pre @ r # post) =
              batch_failures svc cfg 0 pre @ [failure_entry (envelope_id r)]
                @ batch_failures svc cfg (Suc (length pre)) post"
    by (simp add: batch_failures_append out)
  have world: "batch_world svc cfg 0 (pre @ r # post) w =
      batch_world svc cfg (Suc (length pre)) post
        ((batch_world svc cfg 0 pre w)
           \<lparr>comprehend_calls := comprehend_calls (batch_world svc cfg 0 pre w) @ [field kvs ''text'']\<rparr>)"
    by (simp add: batch_world_append out)
  have batch: "\<exists>response w'.
            lambda_handler svc cfg event w = (Inr response, w') \<and>
            reported_failures response =
              batch_failures svc cfg 0 pre @ [failure_entry (envelope_id r)]
                @ batch_failures svc cfg (Suc (length pre)) post \<and>
            w' = batch_world svc cfg (Suc (length pre)) post
                   ((batch_world svc cfg 0 pre w)
                      \<lparr>comprehend_calls :=
                         comprehend_calls (batch_world svc cfg 0 pre w) @ [field kvs ''text'']\<rparr>)"
  proof (intro exI conjI)
    show "lambda_handler svc cfg event w =
       (Inr (if batch_failures svc cfg 0 (pre @ r # post) \<noteq> []
             then JDict [(''batchItemFailures'', JList (batch_failures svc cfg 0 (pre @ r # post)))]
             else success_response),
        batch_world svc cfg 0 (pre @ r # post) w)"
      by (rule lambda_handler_eq[OF assms(1,2)])
    show "reported_failures
            (if batch_failures svc cfg 0 (pre @ r # post) \<noteq> []
             then JDict [(''batchItemFailures'', JList (batch_failures svc cfg 0 (pre @ r # post)))]
             else success_response) =
          batch_failures svc cfg 0 pre @ [failure_entry (envelope_id r)]
            @ batch_failures svc cfg (Suc (length pre)) post"
      unfolding reported_failures_batch by (rule fs)
    show "batch_world svc cfg 0 (pre @ r # post) w =
      batch_world svc cfg (Suc (length pre)) post
        ((batch_world svc cfg 0 pre w)
           \<lparr>comprehend_calls := comprehend_calls (batch_world svc cfg 0 pre w) @ [field kvs ''text'']\<rparr>)"
      by (rule world)
  qed
  have turn: "handle_record svc cfg (length pre) r (fs, v) =
                   (Inr (fs @ [failure_entry (envelope_id r)]),
                    v\<lparr>comprehend_calls := comprehend_calls v @ [field kvs ''text'']\<rparr>)" for fs v
    by (simp add: handle_record_eq[OF m] out id)
  from batch turn show ?thesis by blast
qed

lemma envelope_id_envelope: "envelope_id (envelope m b) = JStr m"
  by (simp add: envelope_id_def envelope_def)

lemma example_submission_stale:
  "submission example_services (envelope m stale_body) = Some stale_submission"
  by (simp add: submission_def envelope_def example_services_def example_loads_def
        good_body_def stale_body_def)

theorem classifier_failure_isolated_witness:
  "dict_get (batch_event example_batch) ''Records'' (JList []) = Inr (JList example_batch) \<and>
   list_all (\<lambda>r. \<exists>m. subscript r ''messageId'' = Inr m) example_batch \<and>
   submission example_services (envelope ''m1'' stale_body) = Some stale_submission \<and>
   complete_fields stale_submission \<and>
   comprehend_try example_services 1 (field stale_submission ''text'') = Inl (OtherError ''ClientError'') \<and>
   (\<exists>response w'.
      lambda_handler example_services example_config (batch_event example_batch) empty_world
        = (Inr response, w') \<and>
      reported_failures response =
        [failure_entry (JStr ''m1''), failure_entry (JStr ''m2''), failure_entry (JStr ''m3'')] \<and>
      put_calls w' = [example_item 0 ''2024-01-01T00:00:00Z'', example_item 4 ''2024-01-01T00:00:00Z'']) \<and>
   handle_record example_services example_config 1 (envelope ''m1'' stale_body) ([], empty_world) =
     (Inr [failure_entry (JStr ''m1'')],
      empty_world\<lparr>comprehend_calls := [JStr ''Great service!'']\<rparr>)"
proof -
  let ?pre = "[envelope ''m0'' good_body]"
  let ?post = "[envelope ''m2'' no_survey_id_body, envelope ''m3'' ''not json'', envelope ''m4'' good_body]"
  have split: "example_batch = ?pre @ envelope ''m1'' stale_body # ?post"
    by (simp add: example_batch_def)
  have h1: "dict_get (batch_event example_batch) ''Records'' (JList [])
              = Inr (JList (?pre @ envelope ''m1'' stale_body # ?post))"
    by (simp add: batch_event_def example_batch_def)
  have h2: "\<forall>x\<in>set (?pre @ envelope ''m1'' stale_body # ?post). \<exists>m. subscript x ''messageId'' = Inr m"
    by (simp add: envelope_def)
  have h3: "submission example_services (envelope ''m1'' stale_body) = Some stale_submission"
    by (rule example_submission_stale)
  have h4: "complete_fields stale_submission"
    by (simp add: complete_fields_def field_def stale_submission_def)
  have h5: "comprehend_try example_services (length ?pre) (field stale_submission ''text'')
              = Inl (OtherError ''ClientError'')"
    by (simp add: comprehend_try_def example_services_def)
  note inst = classifier_failure_isolated[OF h1 h2 h3 h4 h5,
      of example_config empty_world]
  from inst obtain response w' where
    run: "lambda_handler example_services example_config (batch_event example_batch) empty_world
            = (Inr response, w')"
    and fs: "reported_failures response =
        batch_failures example_services example_config 0 ?pre @ [failure_entry (envelope_id (envelope ''m1'' stale_body))]
          @ batch_failures example_services example_config (Suc (length ?pre)) ?post"
    by blast
  from inst have turn: "handle_record example_services example_config (length ?pre) (envelope ''m1'' stale_body) ([], empty_world) =
      (Inr ([] @ [failure_entry (envelope_id (envelope ''m1'' stale_body))]),
       empty_world\<lparr>comprehend_calls := comprehend_calls empty_world @ [field stale_submission ''text'']\<rparr>)"
    by blast
  have w': "w' = batch_world example_services example_config 0 example_batch empty_world"
    using run lambda_handler_eq[OF example_batch_records example_batch_ids,
        of example_services example_config empty_world] by simp
  have c1: "reported_failures response =
        [failure_entry (JStr ''m1''), failure_entry (JStr ''m2''), failure_entry (JStr ''m3'')]"
    unfolding fs by (simp add: example_outcomes envelope_id_envelope)
  have c2: "put_calls w' = [example_item 0 ''2024-01-01T00:00:00Z'', example_item 4 ''2024-01-01T00:00:00Z'']"
    unfolding w' by (simp add: example_batch_world)
  have c3: "handle_record example_services example_config 1 (envelope ''m1'' stale_body) ([], empty_world) =
     (Inr [failure_entry (JStr ''m1'')],
      empty_world\<lparr>comprehend_calls := [JStr ''Great service!'']\<rparr>)"
    using turn by (simp add: envelope_id_envelope field_def stale_submission_def empty_world_def)
  from h5 have h5': "comprehend_try example_services 1 (field stale_submission ''text'')
              = Inl (OtherError ''ClientError'')" by simp
  from example_batch_records example_batch_ids h3 h4 h5' run c1 c2 c3 show ?thesis
    by (intro conjI exI[of _ response] exI[of _ w']) (simp_all add: list_all_iff)
qed

lemma handle_record_put_calls:
  "put_calls (snd (handle_record svc cfg i r (fs, w))) =
     put_calls w @ written (envelope_outcome svc cfg i r)"
  by (simp add: handle_record_world apply_outcome_put_calls)

lemma field_agree:
  "\<forall>k. k \<noteq> ''timestamp'' \<longrightarrow> map_of kvs1 k = map_of kvs2 k \<Longrightarrow>
   k \<noteq> ''timestamp'' \<Longrightarrow> field kvs1 k = field kvs2 k"
  by (simp add: field_def)

lemma survey_record_timestamp:
  assumes "\<forall>k. k \<noteq> ''timestamp'' \<longrightarrow> map_of kvs1 k = map_of kvs2 k"
  shows "survey_record svc cfg i kvs2 label scores =
           map_option (\<lambda>it. it\<lparr>originalTimestamp := field kvs2 ''timestamp''\<rparr>)
             (survey_record svc cfg i kvs1 label scores)"
proof -
  have "field kvs1 ''surveyId'' = field kvs2 ''surveyId''"
    "field kvs1 ''customerId'' = field kvs2 ''customerId''"
    "field kvs1 ''rating'' = field kvs2 ''rating''"
    "field kvs1 ''text'' = field kvs2 ''text''"
    using assms by (simp_all add: field_agree)
  then show ?thesis by (simp add: survey_record_def)
qed

lemma written_timestamp:
  assumes "submission svc r1 = Some kvs1" and "submission svc r2 = Some kvs2"
    and "\<forall>k. k \<noteq> ''timestamp'' \<longrightarrow> map_of kvs1 k = map_of kvs2 k"
  shows "written (envelope_outcome svc cfg i r2) =
           map (\<lambda>it. it\<lparr>originalTimestamp := field kvs2 ''timestamp''\<rparr>)
             (written (envelope_outcome svc cfg i r1))"
proof -
  have same: "field kvs1 ''surveyId'' = field kvs2 ''surveyId''"
    "field kvs1 ''customerId'' = field kvs2 ''customerId''"
    "field kvs1 ''rating'' = field kvs2 ''rating''"
    "field kvs1 ''text'' = field kvs2 ''text''"
    using assms(3) by (simp_all add: field_agree)
  then have complete: "complete_fields kvs1 = complete_fields kvs2"
    by (simp add: complete_fields_def)
  show ?thesis
  proof (cases "complete_fields kvs1")
    case False
    with complete assms(1,2) show ?thesis by (simp add: envelope_outcome_def)
  next
    case True
    show ?thesis
    proof (cases "classify svc i (field kvs1 ''text'')")
      case None
      with True complete assms(1,2) same show ?thesis by (simp add: envelope_outcome_def)
    next
      case (Some p)
      obtain label scores where p: "p = (label, scores)" by (cases p)
      note sr = survey_record_timestamp[OF assms(3), of svc cfg i label scores]
      show ?thesis
      proof (cases "survey_record svc cfg i kvs1 label scores")
        case None
        with sr True complete assms(1,2) same Some p show ?thesis
          by (simp add: envelope_outcome_def)
      next
        case (Some it)
        with sr True complete assms(1,2) same \<open>classify svc i (field kvs1 ''text'') = Some p\<close> p
        show ?thesis
          by (simp add: envelope_outcome_def)
      qed
    qed
  qed
qed

text \<open>
  C7. Let two envelopes hold submissions that agree on every key but \<^verbatim>\<open>timestamp\<close>, and
  let each be processed at the same position of a batch, that is at the same reading of
  the clock and with the same answer of the classifier. Then the items the two runs send
  to the store differ in \<open>originalTimestamp\<close> and in nothing else: \<open>createdAt\<close> is the
  clock's reading, \<open>expiresAt\<close> is \<open>createdAt\<close> plus the retention, and
  \<open>originalTimestamp\<close> is the caller's \<^verbatim>\<open>timestamp\<close> as it came.
\<close>

theorem expiry_ignores_caller_timestamp:
  assumes "subscript r1 ''body'' = Inr (JStr b1)" and "json_loads svc b1 = Inr (JDict kvs1)"
    and "subscript r2 ''body'' = Inr (JStr b2)" and "json_loads svc b2 = Inr (JDict kvs2)"
    and "\<forall>k. k \<noteq> ''timestamp'' \<longrightarrow> map_of kvs1 k = map_of kvs2 k"
  shows "\<exists>new1 new2.
           put_calls (snd (handle_record svc cfg i r1 (fs1, w))) = put_calls w @ new1 \<and>
           put_calls (snd (handle_record svc cfg i r2 (fs2, w))) = put_calls w @ new2 \<and>
           new2 = map (\<lambda>it. it\<lparr>originalTimestamp := field kvs2 ''timestamp''\<rparr>) new1 \<and>
           map createdAt new2 = map createdAt new1 \<and>
           map expiresAt new2 = map expiresAt new1 \<and>
           (\<forall>it\<in>set new1. createdAt it = int_of_float (time_time svc i) \<and>
                           expiresAt it = createdAt it + TTL_DAYS cfg * 86400 \<and>
                           originalTimestamp it = field kvs1 ''timestamp'') \<and>
           (\<forall>it\<in>set new2. createdAt it = int_of_float (time_time svc i) \<and>
                           expiresAt it = createdAt it + TTL_DAYS cfg * 86400 \<and>
                           originalTimestamp it = field kvs2 ''timestamp'')"
proof -
  have s1: "submission svc r1 = Some kvs1" using assms(1,2) by (simp add: submission_def)
  have s2: "submission svc r2 = Some kvs2" using assms(3,4) by (simp add: submission_def)
  let ?new1 = "written (envelope_outcome svc cfg i r1)"
  let ?new2 = "written (envelope_outcome svc cfg i r2)"
  have rel: "?new2 = map (\<lambda>it. it\<lparr>originalTimestamp := field kvs2 ''timestamp''\<rparr>) ?new1"
    by (rule written_timestamp[OF s1 s2 assms(5)])
  have fields: "createdAt it = int_of_float (time_time svc i) \<and>
                expiresAt it = createdAt it + TTL_DAYS cfg * 86400 \<and>
                originalTimestamp it = field kvs ''timestamp''"
    if "it \<in> set (written (envelope_outcome svc cfg i r))" and "submission svc r = Some kvs"
    for it r kvs
  proof -
    from that obtain label scores where "survey_record svc cfg i kvs label scores = Some it"
      using outcome_written by fastforce
    then show ?thesis by (simp add: survey_record_fields)
  qed
  show ?thesis
  proof (intro exI conjI)
    show "put_calls (snd (handle_record svc cfg i r1 (fs1, w))) = put_calls w @ ?new1"
      by (rule handle_record_put_calls)
    show "put_calls (snd (handle_record svc cfg i r2 (fs2, w))) = put_calls w @ ?new2"
      by (rule handle_record_put_calls)
    show "?new2 = map (\<lambda>it. it\<lparr>originalTimestamp := field kvs2 ''timestamp''\<rparr>) ?new1"
      by (rule rel)
    show "map createdAt ?new2 = map createdAt ?new1"
      unfolding rel by simp
    show "map expiresAt ?new2 = map expiresAt ?new1"
      unfolding rel by simp
    show "\<forall>it\<in>set ?new1. createdAt it = int_of_float (time_time svc i) \<and>
                           expiresAt it = createdAt it + TTL_DAYS cfg * 86400 \<and>
                           originalTimestamp it = field kvs1 ''timestamp''"
      using fields[OF _ s1] by blast
    show "\<forall>it\<in>set ?new2. createdAt it = int_of_float (time_time svc i) \<and>
                           expiresAt it = createdAt it + TTL_DAYS cfg * 86400 \<and>
                           originalTimestamp it = field kvs2 ''timestamp''"
      using fields[OF _ s2] by blast
  qed
qed

theorem expiry_ignores_caller_timestamp_witness:
  "subscript (envelope ''m0'' good_body) ''body'' = Inr (JStr good_body) \<and>
   json_loads example_services good_body = Inr (JDict good_submission) \<and>
   subscript (envelope ''m1'' stale_body) ''body'' = Inr (JStr stale_body) \<and>
   json_loads example_services stale_body = Inr (JDict stale_submission) \<and>
   list_all (\<lambda>k. map_of good_submission k = map_of stale_submission k)
     [''surveyId'', ''customerId'', ''rating'', ''text''] \<and>
   put_calls (snd (handle_record example_services example_config 0 (envelope ''m0'' good_body) ([], empty_world)))
     = [example_item 0 ''2024-01-01T00:00:00Z''] \<and>
   put_calls (snd (handle_record example_services example_config 0 (envelope ''m1'' stale_body) ([], empty_world)))
     = [example_item 0 ''1999-12-31T23:59:59Z''] \<and>
   createdAt (example_item 0 ''1999-12-31T23:59:59Z'') = createdAt (example_item 0 ''2024-01-01T00:00:00Z'') \<and>
   expiresAt (example_item 0 ''1999-12-31T23:59:59Z'') = expiresAt (example_item 0 ''2024-01-01T00:00:00Z'')"
proof -
  have h1: "subscript (envelope ''m0'' good_body) ''body'' = Inr (JStr good_body)"
    by (simp add: envelope_def)
  have h2: "json_loads example_services good_body = Inr (JDict good_submission)"
    by (simp add: example_services_def example_loads_def)
  have h3: "subscript (envelope ''m1'' stale_body) ''body'' = Inr (JStr stale_body)"
    by (simp add: envelope_def)
  have h4: "json_loads example_services stale_body = Inr (JDict stale_submission)"
    by (simp add: example_services_def example_loads_def good_body_def stale_body_def)
  have h5: "\<forall>k. k \<noteq> ''timestamp'' \<longrightarrow> map_of good_submission k = map_of stale_submission k"
    by (simp add: good_submission_def stale_submission_def)
  from expiry_ignores_caller_timestamp[OF h1 h2 h3 h4 h5, of example_config 0 "[]" empty_world "[]"]
  obtain new1 new2 where
    p1: "put_calls (snd (handle_record example_services example_config 0 (envelope ''m0'' good_body) ([], empty_world)))
           = put_calls empty_world @ new1"
    and p2: "put_calls (snd (handle_record example_services example_config 0 (envelope ''m1'' stale_body) ([], empty_world)))
           = put_calls empty_world @ new2"
    and rel: "new2 = map (\<lambda>it. it\<lparr>originalTimestamp := field stale_submission ''timestamp''\<rparr>) new1"
    by blast
  have n1: "new1 = [example_item 0 ''2024-01-01T00:00:00Z'']"
    using p1 by (simp add: handle_record_put_calls example_outcomes empty_world_def)
  have n2: "new2 = [example_item 0 ''1999-12-31T23:59:59Z'']"
    unfolding rel n1 by (simp add: example_item_def field_def stale_submission_def)
  from h1 h2 h3 h4 h5 p1 p2 n1 n2 show ?thesis
    by (simp add: empty_world_def example_item_def list_all_iff)
qed

lemma validation_rejects:
  assumes "submission svc r = Some kvs" and "\<not> complete_fields kvs"
    and "subscript r ''messageId'' = Inr m"
  shows "handle_record svc cfg i r (fs, w) = (Inr (fs @ [failure_entry m]), w)"
  using assms(1,2) by (simp add: handle_record_eq[OF assms(3)] envelope_outcome_def)

lemma validation_accepts:
  assumes "submission svc r = Some kvs" and "complete_fields kvs"
  shows "comprehend_calls (snd (handle_record svc cfg i r (fs, w))) =
           comprehend_calls w @ [field kvs ''text'']"
  using assms by (simp add: handle_record_world outcome_calls)

text \<open>
  C3. Validation lets a submission through exactly when the four required values are
  truthy; \<^verbatim>\<open>timestamp\<close> is not looked at, and a rejected submission is recorded as failed
  with no classifier call and no write (\<open>validation_rejects\<close>, \<open>validation_accepts\<close>).
  Truthy is not the same as present, non-empty and non-null: the submission below has
  all four fields, the rating being the number 0, and the handler records its envelope
  as failed, the world untouched.
\<close>

theorem zero_rating_rejected:
  "json_loads example_services zero_rating_body = Inr (JDict zero_rating_submission) \<and>
   map_of zero_rating_submission ''surveyId'' = Some (JStr ''s3'') \<and>
   map_of zero_rating_submission ''customerId'' = Some (JStr ''c3'') \<and>
   map_of zero_rating_submission ''rating'' = Some (JInt 0) \<and>
   map_of zero_rating_submission ''text'' = Some (JStr ''ok'') \<and>
   handle_record example_services example_config 0 (envelope ''m5'' zero_rating_body) ([], empty_world) =
     (Inr [JDict [(''itemIdentifier'', JStr ''m5'')]], empty_world)"
  by (simp add: handle_record_def try_body_def py_json_loads_def append_failure_def envelope_def
        example_services_def example_loads_def zero_rating_submission_def
        good_body_def stale_body_def no_survey_id_body_def zero_rating_body_def)

section \<open>The authorizer\<close>


















end
